theory Spec2Isabelle
  imports Complex_Main "HOL-Library.Word" "HOL-Library.Log_Nat"
begin

section \<open>Data model\<close>

text \<open>
  The motion detector of \<^verbatim>\<open>src/motion_detector/motion_detector.py\<close>. Pixels are
  \<^verbatim>\<open>uint8\<close>, contour coordinates \<^verbatim>\<open>int32\<close>, and \<^verbatim>\<open>sensitivity\<close> and
  \<^verbatim>\<open>min_box_size\<close> are Python floats (IEEE binary64).
\<close>

type_synonym u8 = "8 word"
type_synonym i32 = "32 word"

text \<open>
  The exceptions the code can raise: \<^verbatim>\<open>cv2.error\<close> (from the OpenCV calls),
  \<^verbatim>\<open>ValueError\<close> (\<^verbatim>\<open>min\<close> of an empty sequence, \<^verbatim>\<open>math.floor\<close> of a NaN),
  \<^verbatim>\<open>OverflowError\<close> (\<^verbatim>\<open>math.floor\<close> of an infinity), \<^verbatim>\<open>KeyError\<close> (a missing
  dependency) and the plain \<^verbatim>\<open>Exception\<close> of \<^verbatim>\<open>validate_config\<close> with its message.
\<close>

datatype error = Cv2Error | ValueError | OverflowError | KeyError | Exception string

text \<open>
  A Python float: \<open>Finite m e\<close> is the number \<open>m \<sqdot> 2\<^sup>e\<close>, beside the two infinities and
  NaN. The two zeros are not told apart (no operation of the code distinguishes them).
\<close>

datatype pyfloat = Finite int int | PosInf | NegInf | NaN

text \<open>
  A grayscale array as numpy holds it: its shape and a row-major buffer. The pixel at
  row \<open>y\<close>, column \<open>x\<close> is \<open>pixels f ! (y * width f + x)\<close>.
\<close>

record frame =
  height :: nat
  width :: nat
  pixels :: "u8 list"

definition wf_frame :: "frame \<Rightarrow> bool" where
  "wf_frame f \<longleftrightarrow> length (pixels f) = height f * width f"

text \<open>
  The confidence of a result is always a finite float (a quotient of at most 255, or the
  constant 0.5); the record holds its value.
\<close>

record classification =
  class_name :: string
  confidence :: real

record detection = classification +
  x_min :: int
  y_min :: int
  x_max :: int
  y_max :: int

text \<open>The attributes \<^verbatim>\<open>reconfigure\<close> stores on the service object.\<close>

record 'cam motion_detector =
  cam_name :: string
  camera :: 'cam
  sensitivity :: pyfloat
  min_box_size :: pyfloat

subsection \<open>Configuration attributes\<close>

text \<open>
  \<^verbatim>\<open>config.attributes.fields\<close> is a protobuf map from names to values. Reading a name
  that is absent yields a default value, whose \<^verbatim>\<open>number_value\<close> is 0.0 and whose
  \<^verbatim>\<open>string_value\<close> is empty; so does reading a value of another kind. A number is a
  double: it can be an infinity or NaN.
\<close>

datatype pvalue = NullValue | NumberValue pyfloat | StringValue string | BoolValue bool

type_synonym service_config = "string \<rightharpoonup> pvalue"

definition number_value :: "pvalue option \<Rightarrow> pyfloat" where
  "number_value v = (case v of Some (NumberValue r) \<Rightarrow> r | _ \<Rightarrow> Finite 0 0)"

definition string_value :: "pvalue option \<Rightarrow> string" where
  "string_value v = (case v of Some (StringValue s) \<Rightarrow> s | _ \<Rightarrow> [])"

section \<open>Float arithmetic\<close>

definition valof :: "int \<Rightarrow> int \<Rightarrow> real" where
  "valof m e = (if 0 \<le> e then real_of_int (m * 2 ^ nat e) else real_of_int m / 2 ^ nat (- e))"

text \<open>
  The comparisons \<^verbatim>\<open>a < b\<close> and \<^verbatim>\<open>a == b\<close>; \<^verbatim>\<open>a > b\<close> is \<open>fless b a\<close>. Every
  comparison with NaN is false.
\<close>

fun fless :: "pyfloat \<Rightarrow> pyfloat \<Rightarrow> bool" where
  "fless (Finite m e) (Finite m' e') = (valof m e < valof m' e')"
| "fless (Finite m e) PosInf = True"
| "fless NegInf (Finite m e) = True"
| "fless NegInf PosInf = True"
| "fless _ _ = False"

fun feq :: "pyfloat \<Rightarrow> pyfloat \<Rightarrow> bool" where
  "feq (Finite m e) (Finite m' e') = (valof m e = valof m' e')"
| "feq PosInf PosInf = True"
| "feq NegInf NegInf = True"
| "feq _ _ = False"

text \<open>
  Rounding to nearest, ties to even: \<open>round_half_even M s\<close> is \<open>M / 2\<^sup>s\<close> rounded to an
  integer, and \<open>round53\<close> rounds \<open>M \<sqdot> 2\<^sup>e\<close> to a significand of 53 bits, or to a multiple
  of \<open>2\<^sup>-\<^sup>1\<^sup>0\<^sup>7\<^sup>4\<close> in the subnormal range. \<open>fround\<close> adds the overflow to an infinity.
\<close>

definition round_half_even :: "int \<Rightarrow> nat \<Rightarrow> int" where
  "round_half_even M s =
     (if s = 0 then M
      else let q = M div 2 ^ s; r = M mod 2 ^ s; h = 2 ^ (s - 1)
           in if r < h then q else if h < r then q + 1 else if even q then q else q + 1)"

definition round53 :: "int \<Rightarrow> int \<Rightarrow> int \<times> int" where
  "round53 M e =
     (let s = max (bitlen \<bar>M\<bar> - 53) (- 1074 - e)
      in if s \<le> 0 then (M, e) else (round_half_even M (nat s), e + s))"

definition fround :: "int \<Rightarrow> int \<Rightarrow> pyfloat" where
  "fround M e =
     (case round53 M e of (m, e') \<Rightarrow>
        if m \<noteq> 0 \<and> bitlen \<bar>m\<bar> + e' > 1024
        then (if 0 < m then PosInf else NegInf)
        else Finite m e')"

text \<open>The float operations \<^verbatim>\<open>a - b\<close> and \<^verbatim>\<open>a * b\<close>.\<close>

fun fsub :: "pyfloat \<Rightarrow> pyfloat \<Rightarrow> pyfloat" where
  "fsub (Finite m1 e1) (Finite m2 e2) =
     (let e = min e1 e2
      in fround (m1 * 2 ^ nat (e1 - e) - m2 * 2 ^ nat (e2 - e)) e)"
| "fsub NaN _ = NaN"
| "fsub _ NaN = NaN"
| "fsub PosInf PosInf = NaN"
| "fsub NegInf NegInf = NaN"
| "fsub PosInf _ = PosInf"
| "fsub NegInf _ = NegInf"
| "fsub _ PosInf = NegInf"
| "fsub _ NegInf = PosInf"

fun fmul :: "pyfloat \<Rightarrow> pyfloat \<Rightarrow> pyfloat" where
  "fmul (Finite m1 e1) (Finite m2 e2) = fround (m1 * m2) (e1 + e2)"
| "fmul NaN _ = NaN"
| "fmul _ NaN = NaN"
| "fmul (Finite m e) PosInf = (if m = 0 then NaN else if 0 < m then PosInf else NegInf)"
| "fmul (Finite m e) NegInf = (if m = 0 then NaN else if 0 < m then NegInf else PosInf)"
| "fmul PosInf (Finite m e) = (if m = 0 then NaN else if 0 < m then PosInf else NegInf)"
| "fmul NegInf (Finite m e) = (if m = 0 then NaN else if 0 < m then NegInf else PosInf)"
| "fmul PosInf PosInf = PosInf"
| "fmul NegInf NegInf = PosInf"
| "fmul PosInf NegInf = NegInf"
| "fmul NegInf PosInf = NegInf"

text \<open>
  \<^verbatim>\<open>math.floor\<close>: the integer below a finite float; it raises on NaN and on the
  infinities.
\<close>

definition math_floor :: "pyfloat \<Rightarrow> error + int" where
  "math_floor x =
     (case x of
        Finite m e \<Rightarrow> Inr (if 0 \<le> e then m * 2 ^ nat e else m div 2 ^ nat (- e))
      | NaN \<Rightarrow> Inl ValueError
      | _ \<Rightarrow> Inl OverflowError)"

text \<open>
  The float nearest to the quotient \<open>p / q\<close> of a non-negative integer by a positive
  one, as significand and exponent: the quotient is taken to 55 bits or more, with one
  more bit that records a remainder, and rounded. It is the result of numpy's division
  of the two integers (which converts them to floats first, exactly for operands below
  \<open>2\<^sup>5\<^sup>3\<close>, as the sizes and sums of arrays in memory are), and the value of a
  decimal literal such as \<^verbatim>\<open>0.9\<close>.
\<close>

definition true_divide :: "int \<Rightarrow> int \<Rightarrow> int \<times> int" where
  "true_divide p q =
     (if p = 0 then (0, 0)
      else let k = 55 - (bitlen p - bitlen q);
               num = (if 0 \<le> k then p * 2 ^ nat k else p);
               den = (if 0 \<le> k then q else q * 2 ^ nat (- k));
               M = 2 * (num div den) + (if num mod den = 0 then 0 else 1)
           in round53 M (- k - 1))"

definition py_float :: "int \<Rightarrow> int \<Rightarrow> pyfloat" where
  "py_float p q = (case true_divide p q of (m, e) \<Rightarrow> Finite m e)"

definition quotient_value :: "int \<Rightarrow> int \<Rightarrow> real" where
  "quotient_value p q = (case true_divide p q of (m, e) \<Rightarrow> valof m e)"

section \<open>Configuration\<close>

definition validate_config :: "service_config \<Rightarrow> error + string list" where
  "validate_config config =
     (let source_cam = string_value (config ''cam_name'');
          min_boxsize = number_value (config ''min_box_size'')
      in if fless min_boxsize (Finite 0 0)
         then Inl (Exception ''Minimum bounding box size should be a positive integer'')
         else let sensitivity = number_value (config ''sensitivity'')
              in if fless sensitivity (Finite 0 0) \<or> fless (Finite 1 0) sensitivity
                 then Inl (Exception ''Sensitivity should be a number between 0 and 1'')
                 else Inr [source_cam])"

text \<open>
  \<^verbatim>\<open>dependencies\<close> is a dictionary from resource names to resources; the camera is looked
  up under the name built from \<^verbatim>\<open>cam_name\<close>, and a missing key raises. The literal
  \<^verbatim>\<open>0.9\<close> is the float nearest to 9/10.
\<close>

definition reconfigure ::
  "'cam motion_detector \<Rightarrow> service_config \<Rightarrow> (string \<rightharpoonup> 'cam) \<Rightarrow> error + 'cam motion_detector" where
  "reconfigure self config dependencies =
     (let self = self\<lparr>cam_name := string_value (config ''cam_name'')\<rparr>
      in case dependencies (cam_name self) of
           None \<Rightarrow> Inl KeyError
         | Some cam \<Rightarrow>
             let self = self\<lparr>camera := cam\<rparr>;
                 self = self\<lparr>sensitivity := number_value (config ''sensitivity'')\<rparr>;
                 self = (if feq (sensitivity self) (Finite 0 0)
                         then self\<lparr>sensitivity := py_float 9 10\<rparr> else self);
                 self = self\<lparr>min_box_size := number_value (config ''min_box_size'')\<rparr>
             in Inr self)"

section \<open>OpenCV and numpy operations used by the service\<close>

text \<open>
  \<^verbatim>\<open>cv2.cvtColor\<close> rejects an empty array. A captured image is represented by its
  grayscale conversion, so the conversion itself is the identity here.
\<close>

definition cvtColor :: "frame \<Rightarrow> error + frame" where
  "cvtColor img = (if height img = 0 \<or> width img = 0 then Inl Cv2Error else Inr img)"

definition absdiff_u8 :: "u8 \<Rightarrow> u8 \<Rightarrow> u8" where
  "absdiff_u8 a b = (if a \<le> b then b - a else a - b)"

text \<open>\<^verbatim>\<open>cv2.absdiff\<close> raises when the two arrays differ in shape.\<close>

definition absdiff :: "frame \<Rightarrow> frame \<Rightarrow> error + frame" where
  "absdiff src1 src2 =
     (if height src1 = height src2 \<and> width src1 = width src2
      then Inr \<lparr>height = height src1, width = width src1,
                pixels = map2 absdiff_u8 (pixels src1) (pixels src2)\<rparr>
      else Inl Cv2Error)"

text \<open>The masked assignment \<^verbatim>\<open>a[cond(a)] = v\<close>, on the whole buffer.\<close>

definition assign_where :: "(u8 \<Rightarrow> bool) \<Rightarrow> u8 \<Rightarrow> frame \<Rightarrow> frame" where
  "assign_where cond v a = a\<lparr>pixels := map (\<lambda>p. if cond p then v else p) (pixels a)\<rparr>"

text \<open>\<^verbatim>\<open>math.floor((1 - sensitivity) * 255)\<close>, in float arithmetic.\<close>

definition threshold_k :: "pyfloat \<Rightarrow> error + int" where
  "threshold_k s = math_floor (fmul (fsub (Finite 1 0) s) (Finite 255 0))"

text \<open>
  The two assignments \<^verbatim>\<open>diff[diff<k] = 0; diff[diff>k] = v\<close>, with \<open>v = 1\<close> in
  \<^verbatim>\<open>get_classifications\<close> and \<open>v = 255\<close> in \<^verbatim>\<open>get_detections\<close>.
\<close>

definition threshold :: "int \<Rightarrow> u8 \<Rightarrow> frame \<Rightarrow> frame" where
  "threshold k v diff =
     (let diff = assign_where (\<lambda>p. uint p < k) 0 diff;
          diff = assign_where (\<lambda>p. uint p > k) v diff
      in diff)"

text \<open>\<^verbatim>\<open>np.sum\<close> of a \<^verbatim>\<open>uint8\<close> array accumulates in 64 bits: no wrap-around.\<close>

definition np_sum :: "frame \<Rightarrow> int" where
  "np_sum a = sum_list (map uint (pixels a))"

section \<open>Classification\<close>

text \<open>
  \<open>img1\<close> and \<open>img2\<close> are what the two \<^verbatim>\<open>await self.camera.get_image()\<close> return;
  \<open>img\<close> and \<open>count\<close> are the method's arguments \<^verbatim>\<open>image\<close> and \<^verbatim>\<open>count\<close>.
\<close>

definition get_classifications ::
  "'cam motion_detector \<Rightarrow> 'img \<Rightarrow> int \<Rightarrow> frame \<Rightarrow> frame \<Rightarrow> error + classification list" where
  "get_classifications self img count img1 img2 =
     (case cvtColor img1 of Inl e \<Rightarrow> Inl e | Inr gray1 \<Rightarrow>
      case cvtColor img2 of Inl e \<Rightarrow> Inl e | Inr gray2 \<Rightarrow>
      case absdiff gray2 gray1 of Inl e \<Rightarrow> Inl e | Inr diff \<Rightarrow>
      case threshold_k (sensitivity self) of Inl e \<Rightarrow> Inl e | Inr k \<Rightarrow>
        let diff = threshold k 1 diff;
            conf = quotient_value (np_sum diff) (int (width img1 * height img1))
        in Inr [\<lparr>class_name = ''motion'', confidence = conf\<rparr>])"

section \<open>Detection\<close>

subsection \<open>Morphology\<close>

text \<open>
  \<^verbatim>\<open>cv2.erode\<close> and \<^verbatim>\<open>cv2.dilate\<close> with an \<open>n \<times> n\<close> kernel of ones anchored at its
  centre: the minimum, respectively the maximum, over the kernel's window. With the
  default border the pixels outside the array do not take part (they count as 255 when
  eroding and as 0 when dilating).
\<close>

definition window :: "nat \<Rightarrow> nat \<Rightarrow> nat \<Rightarrow> nat list" where
  "window n limit i = [i - n div 2 ..< min limit (i + (n - n div 2))]"

definition neighbourhood :: "nat \<Rightarrow> frame \<Rightarrow> nat \<Rightarrow> nat \<Rightarrow> u8 list" where
  "neighbourhood n src y x =
     [pixels src ! (y' * width src + x').
        y' \<leftarrow> window n (height src) y, x' \<leftarrow> window n (width src) x]"

definition erode :: "frame \<Rightarrow> nat \<Rightarrow> frame" where
  "erode src n =
     src\<lparr>pixels := [fold min (neighbourhood n src y x) 255.
                      y \<leftarrow> [0 ..< height src], x \<leftarrow> [0 ..< width src]]\<rparr>"

definition dilate :: "frame \<Rightarrow> nat \<Rightarrow> frame" where
  "dilate src n =
     src\<lparr>pixels := [fold max (neighbourhood n src y x) 0.
                      y \<leftarrow> [0 ..< height src], x \<leftarrow> [0 ..< width src]]\<rparr>"

subsection \<open>Boxes from contours\<close>

text \<open>
  A contour is the list of its points \<open>(x, y)\<close>, with \<^verbatim>\<open>int32\<close> coordinates.
  \<^verbatim>\<open>min\<close> and \<^verbatim>\<open>max\<close> compare them as signed numbers and keep the first extremal
  element; on an empty list they raise \<^verbatim>\<open>ValueError\<close>, which \<open>make_boxes\<close> checks
  before it calls them.
\<close>

type_synonym contour = "(i32 \<times> i32) list"

definition py_min :: "i32 list \<Rightarrow> i32" where
  "py_min xs = fold (\<lambda>v m. if sint v < sint m then v else m) (tl xs) (hd xs)"

definition py_max :: "i32 list \<Rightarrow> i32" where
  "py_max xs = fold (\<lambda>v m. if sint v > sint m then v else m) (tl xs) (hd xs)"

text \<open>
  The product \<^verbatim>\<open>(ymax-ymin)*(xmax-xmin)\<close> of the loop, computed on \<^verbatim>\<open>int32\<close>
  values (the operations wrap around) and read as a signed number.
\<close>

definition box_product :: "contour \<Rightarrow> int" where
  "box_product c =
     (let xs = map fst c; ys = map snd c
      in sint ((py_max ys - py_min ys) * (py_max xs - py_min xs)))"

definition box_of :: "contour \<Rightarrow> detection" where
  "box_of c =
     (let xs = map fst c; ys = map snd c
      in \<lparr>class_name = ''motion'', confidence = 1 / 2,
          x_min = sint (py_min xs), y_min = sint (py_min ys),
          x_max = sint (py_max xs), y_max = sint (py_max ys)\<rparr>)"

text \<open>
  The loop \<^verbatim>\<open>for c in contours\<close>, with the list \<^verbatim>\<open>detections\<close> it appends to. The
  product is compared with the float \<^verbatim>\<open>min_box_size\<close>.
\<close>

fun make_boxes :: "pyfloat \<Rightarrow> contour list \<Rightarrow> detection list \<Rightarrow> error + detection list" where
  "make_boxes mbs [] detections = Inr detections"
| "make_boxes mbs (c # contours) detections =
     (if c = [] then Inl ValueError
      else if fless mbs (Finite (box_product c) 0)
      then make_boxes mbs contours (detections @ [box_of c])
      else make_boxes mbs contours detections)"

subsection \<open>The operation\<close>

text \<open>
  \<^verbatim>\<open>cv2.findContours\<close> is a parameter: every result below holds for any function from
  the mask to a list of contours. \<open>input1\<close> and \<open>input2\<close> are what the two
  \<^verbatim>\<open>await self.camera.get_image()\<close> return, \<open>img\<close> is the argument \<^verbatim>\<open>image\<close>.
\<close>

definition denoise :: "frame \<Rightarrow> frame" where
  "denoise diff =
     (let img = erode diff 3;
          img2 = dilate img 3;
          img3 = dilate img2 15;
          imgOut = erode img3 15
      in imgOut)"

definition get_detections ::
  "(frame \<Rightarrow> contour list) \<Rightarrow> 'cam motion_detector \<Rightarrow> 'img \<Rightarrow> frame \<Rightarrow> frame
     \<Rightarrow> error + detection list" where
  "get_detections findContours self img input1 input2 =
     (case cvtColor input1 of Inl e \<Rightarrow> Inl e | Inr gray1 \<Rightarrow>
      case cvtColor input2 of Inl e \<Rightarrow> Inl e | Inr gray2 \<Rightarrow>
      case absdiff gray2 gray1 of Inl e \<Rightarrow> Inl e | Inr diff \<Rightarrow>
      case threshold_k (sensitivity self) of Inl e \<Rightarrow> Inl e | Inr k \<Rightarrow>
        let diff = threshold k 255 diff;
            imgOut = denoise diff;
            contours = findContours imgOut
        in make_boxes (min_box_size self) contours [])"

text \<open>The array of zeros of a given shape.\<close>

definition zeros :: "nat \<Rightarrow> nat \<Rightarrow> frame" where
  "zeros h w = \<lparr>height = h, width = w, pixels = replicate (h * w) 0\<rparr>"

section \<open>Properties of the float arithmetic\<close>

text \<open>Evaluation of the float operations on numerals.\<close>

lemma bitlen_numeral:
  "bitlen (numeral Num.One) = 1"
  "bitlen (numeral (Num.Bit0 n)) = bitlen (numeral n) + 1"
  "bitlen (numeral (Num.Bit1 n)) = bitlen (numeral n) + 1"
  "bitlen 1 = 1"
  "bitlen (- numeral n) = 0"
proof -
  show "bitlen (numeral Num.One) = 1" "bitlen 1 = 1"
    by (simp_all add: bitlen_le_iff_power bitlen_ge_iff_power order.antisym)
  have "bitlen (numeral (Num.Bit0 n)) = bitlen (numeral (Num.Bit0 n) div 2) + 1"
    by (subst compute_bitlen) simp
  then show "bitlen (numeral (Num.Bit0 n)) = bitlen (numeral n) + 1" by simp
  have "bitlen (numeral (Num.Bit1 n)) = bitlen (numeral (Num.Bit1 n) div 2) + 1"
    by (subst compute_bitlen) simp
  then show "bitlen (numeral (Num.Bit1 n)) = bitlen (numeral n) + 1" by simp
  show "bitlen (- numeral n) = 0" by (simp add: bitlen_eq_zero_iff)
qed

lemmas float_eval = py_float_def quotient_value_def true_divide_def round53_def
  round_half_even_def fround_def Let_def valof_def math_floor_def bitlen_numeral

text \<open>The value of a float, and the operations that are exact.\<close>

lemma valof_powr: "valof m e = real_of_int m * 2 powr real_of_int e"
proof (cases "0 \<le> e")
  case True
  then have "2 powr real_of_int e = (2::real) ^ nat e"
    by (simp add: powr_realpow [symmetric])
  with True show ?thesis by (simp add: valof_def)
next
  case False
  then have "2 powr real_of_int e = 1 / (2::real) ^ nat (- e)"
    by (simp add: powr_realpow [symmetric] powr_minus_divide [symmetric])
  with False show ?thesis by (simp add: valof_def)
qed

lemma valof_nonneg: "0 \<le> valof m e \<longleftrightarrow> 0 \<le> m"
  by (simp add: valof_powr zero_le_mult_iff)

lemma valof_mult: "valof (m1 * m2) (e1 + e2) = valof m1 e1 * valof m2 e2"
  by (simp add: valof_powr powr_add)

lemma valof_shift: "0 \<le> d \<Longrightarrow> valof (m * 2 ^ nat d) (e - d) = valof m e"
proof -
  assume d: "0 \<le> d"
  then have "real_of_int (2 ^ nat d) = 2 powr real_of_int d"
    by (simp add: powr_realpow [symmetric])
  then show ?thesis
    by (simp add: valof_powr powr_diff)
qed

lemma valof_align:
  "valof (m1 * 2 ^ nat (e1 - min e1 e2) - m2 * 2 ^ nat (e2 - min e1 e2)) (min e1 e2)
     = valof m1 e1 - valof m2 e2"
proof -
  let ?e = "min e1 e2"
  have "valof (m1 * 2 ^ nat (e1 - ?e)) (e1 - (e1 - ?e)) = valof m1 e1"
    by (rule valof_shift) simp
  moreover have "valof (m2 * 2 ^ nat (e2 - ?e)) (e2 - (e2 - ?e)) = valof m2 e2"
    by (rule valof_shift) simp
  moreover have "valof (a - b) ?e = valof a ?e - valof b ?e" for a b
    by (simp add: valof_powr algebra_simps)
  ultimately show ?thesis by simp
qed

text \<open>
  Rounding a number between 0 and a power of two gives a float between 0 and that power
  of two, and no overflow.
\<close>

lemma round_half_even_nonneg: "0 \<le> M \<Longrightarrow> 0 \<le> round_half_even M s"
  by (auto simp: round_half_even_def Let_def pos_imp_zdiv_nonneg_iff)

lemma round_half_even_le_pow:
  assumes "0 \<le> M" and "M \<le> 2 ^ D" and "s \<le> D"
  shows "round_half_even M s \<le> 2 ^ (D - s)"
proof (cases "s = 0")
  case True
  with assms show ?thesis by (simp add: round_half_even_def)
next
  case False
  let ?q = "M div 2 ^ s" and ?r = "M mod 2 ^ s"
  have split: "(2::int) ^ D = 2 ^ (D - s) * 2 ^ s"
    using assms(3) by (simp add: power_add [symmetric])
  have q: "?q \<le> 2 ^ (D - s)"
  proof -
    have "?q \<le> (2 ^ (D - s) * 2 ^ s) div 2 ^ s"
      using assms(2) unfolding split by (intro zdiv_mono1) simp_all
    then show ?thesis by simp
  qed
  have up: "round_half_even M s \<le> ?q + 1"
    using False by (simp add: round_half_even_def Let_def)
  show ?thesis
  proof (cases "?q = 2 ^ (D - s)")
    case True
    have "M = ?q * 2 ^ s + ?r" by (simp only: div_mult_mod_eq)
    with True have "M = 2 ^ D + ?r" unfolding split by simp
    moreover have "0 \<le> ?r" by simp
    ultimately have "?r = 0" using assms(2) by linarith
    then have "round_half_even M s = ?q"
      using False by (simp add: round_half_even_def Let_def)
    with True show ?thesis by simp
  next
    case False
    with q have "?q + 1 \<le> 2 ^ (D - s)" by simp
    with up show ?thesis by linarith
  qed
qed

lemma two_powr_int: "0 \<le> d \<Longrightarrow> (2::real) powr real_of_int d = 2 ^ nat d"
  by (simp add: powr_realpow [symmetric])

lemma bitlen_le_of_bound:
  assumes "0 < m" and "valof m e \<le> 2 ^ j"
  shows "bitlen m + e \<le> int j + 1"
proof -
  define a where "a = real_of_int (bitlen m - 1)"
  have b: "0 \<le> bitlen m - 1"
    using assms(1) by (simp add: bitlen_alt_def)
  have "(2::int) ^ nat (bitlen m - 1) \<le> m"
    using bitlen_bounds [OF assms(1)] by simp
  then have "real_of_int (2 ^ nat (bitlen m - 1)) \<le> real_of_int m"
    by (rule of_int_le_iff [THEN iffD2])
  then have "(2::real) ^ nat (bitlen m - 1) \<le> real_of_int m"
    by simp
  then have "2 powr a \<le> real_of_int m"
    unfolding a_def two_powr_int [OF b] .
  then have "2 powr a * 2 powr real_of_int e \<le> real_of_int m * 2 powr real_of_int e"
    by (intro mult_right_mono) simp_all
  also have "\<dots> = valof m e" by (simp only: valof_powr)
  also have "\<dots> \<le> 2 powr real j"
    using assms(2) by (simp add: powr_realpow)
  finally have "2 powr (a + real_of_int e) \<le> 2 powr real j"
    by (simp add: powr_add)
  then have "a + real_of_int e \<le> real j"
    by simp
  then have "real_of_int (bitlen m - 1 + e) \<le> real_of_int (int j)"
    unfolding a_def by simp
  then have "bitlen m - 1 + e \<le> int j"
    by (simp only: of_int_le_iff)
  then show ?thesis by simp
qed

lemma nat_diff_nat: "0 < s \<Longrightarrow> s \<le> D \<Longrightarrow> nat D - nat s = nat (D - s)"
  by simp

lemma round53_bound:
  assumes "0 \<le> M" and "valof M e \<le> 2 ^ j" and "round53 M e = (m, e')"
  shows "0 \<le> m \<and> valof m e' \<le> 2 ^ j"
proof -
  let ?s = "max (bitlen \<bar>M\<bar> - 53) (- 1074 - e)"
  show ?thesis
  proof (cases "?s \<le> 0")
    case True
    have "round53 M e = (M, e)"
      unfolding round53_def Let_def using True by (rule if_P)
    with assms show ?thesis by simp
  next
    case False
    then have s: "0 < ?s" by (simp only: not_le)
    have "round53 M e = (round_half_even M (nat ?s), e + ?s)"
      unfolding round53_def Let_def using False by (rule if_not_P)
    with assms(3) have m: "m = round_half_even M (nat ?s)" and e': "e' = e + ?s"
      by simp_all
    have nonneg: "0 \<le> m" unfolding m using assms(1) by (rule round_half_even_nonneg)
    show ?thesis
    proof (cases "M = 0")
      case True
      then have "m = 0" unfolding m by (simp add: round_half_even_def)
      then show ?thesis by (simp add: valof_powr)
    next
      case False
      with assms(1) have pos: "0 < M" by simp
      let ?D = "int j - e"
      have "bitlen M + e \<le> int j + 1"
        using pos assms(2) by (rule bitlen_le_of_bound)
      with pos have sD: "?s \<le> ?D" by simp
      with s have D: "0 \<le> ?D" by simp
      have "real_of_int M * 2 powr real_of_int e \<le> 2 powr real j"
        using assms(2) by (simp add: valof_powr powr_realpow)
      then have "real_of_int M \<le> 2 powr real j / 2 powr real_of_int e"
        by (simp add: pos_le_divide_eq)
      also have "\<dots> = 2 powr real_of_int ?D"
        by (simp add: powr_diff)
      also have "\<dots> = 2 ^ nat ?D" using D by (rule two_powr_int)
      finally have "real_of_int M \<le> real_of_int (2 ^ nat ?D)" by simp
      then have MD: "M \<le> 2 ^ nat ?D" by (simp only: of_int_le_iff)
      have "nat ?s \<le> nat ?D" using sD by simp
      with assms(1) MD have "m \<le> 2 ^ (nat ?D - nat ?s)"
        unfolding m by (rule round_half_even_le_pow)
      then have "real_of_int m \<le> real_of_int (2 ^ (nat ?D - nat ?s))"
        by (simp only: of_int_le_iff)
      also have "nat ?D - nat ?s = nat (?D - ?s)"
        using s sD by (rule nat_diff_nat)
      also have "real_of_int (2 ^ nat (?D - ?s)) = 2 ^ nat (?D - ?s)"
        by simp
      also have "\<dots> = 2 powr real_of_int (?D - ?s)"
      proof -
        have "0 \<le> ?D - ?s" using sD by (simp only: diff_ge_0_iff_ge)
        then show ?thesis by (rule two_powr_int [symmetric])
      qed
      finally have "real_of_int m * 2 powr real_of_int e'
          \<le> 2 powr real_of_int (?D - ?s) * 2 powr real_of_int e'"
        by (intro mult_right_mono) simp_all
      also have "\<dots> = 2 powr (real_of_int (?D - ?s) + real_of_int e')"
        by (simp only: powr_add)
      also have "real_of_int (?D - ?s) + real_of_int e' = real j"
        unfolding e' by simp
      finally show ?thesis
        using nonneg by (simp add: valof_powr powr_realpow)
    qed
  qed
qed

lemma fround_bound:
  assumes "0 \<le> M" and "valof M e \<le> 2 ^ j" and "j \<le> 1023"
  obtains m e' where "fround M e = Finite m e'" and "0 \<le> m" and "valof m e' \<le> 2 ^ j"
proof -
  obtain m e' where r: "round53 M e = (m, e')" by (cases "round53 M e")
  from round53_bound [OF assms(1,2) r] have m: "0 \<le> m" and v: "valof m e' \<le> 2 ^ j"
    by simp_all
  have "\<not> (m \<noteq> 0 \<and> bitlen \<bar>m\<bar> + e' > 1024)"
  proof
    assume a: "m \<noteq> 0 \<and> bitlen \<bar>m\<bar> + e' > 1024"
    with m have "0 < m" by simp
    from bitlen_le_of_bound [OF this v] assms(3) a m show False by simp
  qed
  then have "fround M e = Finite m e'"
    using m by (auto simp: fround_def r)
  then show ?thesis using m v by (rule that)
qed

text \<open>
  For a finite sensitivity of at most 1, and not below \<open>-2\<^sup>1\<^sup>0\<^sup>0\<^sup>0\<close>, the threshold is
  computed and is not negative. A sensitivity further below makes the product overflow,
  and \<^verbatim>\<open>math.floor\<close> raise.
\<close>

lemma math_floor_nonneg: "0 \<le> m \<Longrightarrow> \<exists>k. math_floor (Finite m e) = Inr k \<and> 0 \<le> k"
  by (simp add: math_floor_def pos_imp_zdiv_nonneg_iff)

lemma threshold_k_nonneg:
  assumes "- (2 ^ 1000) \<le> valof m e" and "valof m e \<le> 1"
  shows "\<exists>k. threshold_k (Finite m e) = Inr k \<and> 0 \<le> k"
proof -
  let ?e = "min 0 e"
  let ?M = "1 * 2 ^ nat (0 - ?e) - m * 2 ^ nat (e - ?e)"
  have v: "valof ?M ?e = 1 - valof m e"
    using valof_align [of 1 0 e m] by (simp add: valof_def)
  have "0 \<le> valof ?M ?e" using assms(2) unfolding v by simp
  then have M: "0 \<le> ?M" by (simp only: valof_nonneg)
  have "valof ?M ?e \<le> 1 + 2 ^ 1000" using assms(1) unfolding v by simp
  also have "\<dots> \<le> (2::real) ^ 1001" by simp
  finally have "valof ?M ?e \<le> 2 ^ 1001" .
  note fround_bound [OF M this]
  moreover have "(1001::nat) \<le> 1023" by simp
  ultimately obtain m1 e1
    where sub: "fround ?M ?e = Finite m1 e1" and m1: "0 \<le> m1"
      and v1: "valof m1 e1 \<le> 2 ^ 1001"
    by blast
  have fs: "fsub (Finite 1 0) (Finite m e) = Finite m1 e1"
    using sub by (simp add: Let_def)
  have "valof (m1 * 255) (e1 + 0) = valof m1 e1 * valof 255 0"
    by (rule valof_mult)
  also have "\<dots> = valof m1 e1 * 255"
    by (simp add: valof_def)
  also have "\<dots> \<le> 2 ^ 1001 * 255"
    using v1 by (intro mult_right_mono) simp_all
  also have "\<dots> \<le> (2::real) ^ 1001 * 2 ^ 8"
    by (intro mult_left_mono) simp_all
  also have "\<dots> = 2 ^ 1009"
    by (simp only: power_add [symmetric]) simp
  finally have v2: "valof (m1 * 255) e1 \<le> 2 ^ 1009" by simp
  have "0 \<le> m1 * 255" using m1 by simp
  note fround_bound [OF this v2]
  moreover have "(1009::nat) \<le> 1023" by simp
  ultimately obtain m2 e2
    where mul: "fround (m1 * 255) e1 = Finite m2 e2" and m2: "0 \<le> m2"
    by blast
  have "fmul (Finite m1 e1) (Finite 255 0) = Finite m2 e2"
    using mul by simp
  then have "threshold_k (Finite m e) = math_floor (Finite m2 e2)"
    by (simp only: threshold_k_def fs)
  with math_floor_nonneg [OF m2, of e2] show ?thesis by simp
qed

text \<open>
  The thresholds of some sensitivities, as Python computes them (at 0.8 the float
  product is just below 51).
\<close>

lemma threshold_k_examples:
  "threshold_k (py_float 9 10) = Inr 25"
  "threshold_k (py_float 19 20) = Inr 12"
  "threshold_k (py_float 4 5) = Inr 50"
  "threshold_k (py_float 1 2) = Inr 127"
  "threshold_k (Finite 1 0) = Inr 0"
  "threshold_k (Finite 0 0) = Inr 255"
  "threshold_k (Finite 2 0) = Inr (- 255)"
  by (simp_all add: threshold_k_def float_eval)

lemma threshold_k_overflow: "threshold_k (Finite (- 1) 1020) = Inl OverflowError"
  by (simp add: threshold_k_def float_eval)

lemma threshold_k_nan: "threshold_k NaN = Inl ValueError"
  by (simp add: threshold_k_def math_floor_def)

section \<open>Frames without motion\<close>

text \<open>
  The difference of a frame with itself is the array of zeros, and thresholding (with a
  threshold that is not negative), eroding and dilating keep it so.
\<close>

lemma absdiff_u8_self: "absdiff_u8 a a = 0"
  by (simp add: absdiff_u8_def)

lemma map2_absdiff_self: "map2 absdiff_u8 xs xs = replicate (length xs) 0"
  by (induction xs) (simp_all add: absdiff_u8_self)

lemma absdiff_self:
  "wf_frame f \<Longrightarrow> absdiff f f = Inr (zeros (height f) (width f))"
  by (simp add: absdiff_def zeros_def wf_frame_def map2_absdiff_self)

lemma threshold_zeros:
  "0 \<le> k \<Longrightarrow> threshold k v (zeros h w) = zeros h w"
  by (simp add: threshold_def assign_where_def zeros_def)

lemma grid_const:
  "(\<And>y x. y < h \<Longrightarrow> x < w \<Longrightarrow> g y x = c) \<Longrightarrow>
   concat (map (\<lambda>y. map (\<lambda>x. g y x) [0 ..< w]) [0 ..< h]) = replicate (h * w) c"
proof (induction h)
  case 0
  then show ?case by simp
next
  case (Suc h)
  have row: "map (\<lambda>x. g h x) [0 ..< w] = replicate w c"
    using Suc.prems by (intro nth_equalityI) simp_all
  have "concat (map (\<lambda>y. map (\<lambda>x. g y x) [0 ..< w]) [0 ..< h]) = replicate (h * w) c"
    using Suc.prems by (intro Suc.IH) simp
  then show ?case
    by (simp add: row replicate_add [symmetric] add.commute)
qed

lemma window_bound: "i' \<in> set (window n limit i) \<Longrightarrow> i' < limit"
  by (simp add: window_def)

lemma window_centre: "0 < n \<Longrightarrow> i < limit \<Longrightarrow> i \<in> set (window n limit i)"
  by (auto simp: window_def)

lemma index_bound: "y < h \<Longrightarrow> x < w \<Longrightarrow> y * w + x < h * (w::nat)"
proof -
  assume "y < h" "x < w"
  then have "y * w + x < y * w + w" by simp
  also have "\<dots> = Suc y * w" by simp
  also have "\<dots> \<le> h * w" using \<open>y < h\<close> by (intro mult_le_mono1) simp
  finally show ?thesis .
qed

lemma fold_max_zero: "\<forall>p \<in> set ps. p = 0 \<Longrightarrow> fold max ps (0::u8) = 0"
  by (induction ps) simp_all

lemma fold_min_le: "fold min ps (a::u8) \<le> a"
proof (induction ps arbitrary: a)
  case Nil
  show ?case by simp
next
  case (Cons q ps)
  have "fold min ps (min q a) \<le> min q a" by (rule Cons.IH)
  also have "\<dots> \<le> a" by (rule min.cobounded2)
  finally show ?case by simp
qed

lemma fold_min_mem: "p \<in> set ps \<Longrightarrow> fold min ps (a::u8) \<le> p"
proof (induction ps arbitrary: a)
  case Nil
  then show ?case by simp
next
  case (Cons q ps)
  show ?case
  proof (cases "p = q")
    case True
    have "fold min ps (min q a) \<le> min q a" by (rule fold_min_le)
    also have "\<dots> \<le> q" by (rule min.cobounded1)
    finally show ?thesis using True by simp
  next
    case False
    with Cons.prems have "p \<in> set ps" by simp
    then have "fold min ps (min q a) \<le> p" by (rule Cons.IH)
    then show ?thesis by simp
  qed
qed

lemma neighbourhood_iff:
  "p \<in> set (neighbourhood n src y x) \<longleftrightarrow>
     (\<exists>y' \<in> set (window n (height src) y). \<exists>x' \<in> set (window n (width src) x).
        p = pixels src ! (y' * width src + x'))"
  by (simp add: neighbourhood_def image_iff Bex_def) blast

lemma neighbourhood_zeros:
  assumes "p \<in> set (neighbourhood n (zeros h w) y x)"
  shows "p = 0"
proof -
  have dims: "height (zeros h w) = h" "width (zeros h w) = w"
    "pixels (zeros h w) = replicate (h * w) 0"
    by (simp_all add: zeros_def)
  from assms obtain y' x' where y': "y' \<in> set (window n h y)" and x': "x' \<in> set (window n w x)"
    and p: "p = replicate (h * w) 0 ! (y' * w + x')"
    unfolding neighbourhood_iff dims by blast
  have "y' * w + x' < h * w"
    using window_bound [OF y'] window_bound [OF x'] by (rule index_bound)
  with p show ?thesis by simp
qed

lemma neighbourhood_centre:
  assumes "0 < n" "y < height src" "x < width src"
  shows "pixels src ! (y * width src + x) \<in> set (neighbourhood n src y x)"
proof -
  have "y \<in> set (window n (height src) y)" "x \<in> set (window n (width src) x)"
    using assms by (simp_all add: window_centre)
  then show ?thesis
    unfolding neighbourhood_iff by blast
qed

lemma dilate_zeros: "dilate (zeros h w) n = zeros h w"
proof -
  have "fold max (neighbourhood n (zeros h w) y x) 0 = 0" for y x
    by (rule fold_max_zero) (simp add: neighbourhood_zeros)
  then have "concat (map (\<lambda>y. map (\<lambda>x. fold max (neighbourhood n (zeros h w) y x) 0) [0 ..< w]) [0 ..< h])
      = replicate (h * w) 0"
    by (intro grid_const)
  then show ?thesis
    by (simp add: dilate_def zeros_def)
qed

lemma erode_zeros:
  assumes n: "0 < n"
  shows "erode (zeros h w) n = zeros h w"
proof -
  have dims: "height (zeros h w) = h" "width (zeros h w) = w"
    "pixels (zeros h w) = replicate (h * w) 0"
    by (simp_all add: zeros_def)
  have "fold min (neighbourhood n (zeros h w) y x) 255 = 0" if "y < h" "x < w" for y x
  proof -
    have "pixels (zeros h w) ! (y * width (zeros h w) + x) \<in> set (neighbourhood n (zeros h w) y x)"
      using n that by (intro neighbourhood_centre) (simp_all add: dims)
    then have "fold min (neighbourhood n (zeros h w) y x) 255
                 \<le> pixels (zeros h w) ! (y * width (zeros h w) + x)"
      by (rule fold_min_mem)
    also have "\<dots> = 0"
      using that by (simp add: dims index_bound)
    finally show ?thesis by simp
  qed
  then have "concat (map (\<lambda>y. map (\<lambda>x. fold min (neighbourhood n (zeros h w) y x) 255) [0 ..< w]) [0 ..< h])
      = replicate (h * w) 0"
    by (intro grid_const)
  then show ?thesis
    by (simp add: erode_def zeros_def)
qed

lemma denoise_zeros: "denoise (zeros h w) = zeros h w"
  by (simp add: denoise_def erode_zeros dilate_zeros)

section \<open>The box of a contour\<close>

lemma fold_smin:
  "sint (fold (\<lambda>v m. if sint v < sint m then v else m) ys (m0::i32)) \<le> sint m0 \<and>
   (\<forall>y \<in> set ys. sint (fold (\<lambda>v m. if sint v < sint m then v else m) ys m0) \<le> sint y)"
proof (induction ys arbitrary: m0)
  case Nil
  show ?case by simp
next
  case (Cons y ys)
  let ?m = "if sint y < sint m0 then y else m0"
  have le: "sint ?m \<le> sint m0" "sint ?m \<le> sint y" by simp_all
  from Cons.IH [of ?m] le show ?case
    by (simp; meson order_trans)
qed

lemma fold_smax:
  "sint m0 \<le> sint (fold (\<lambda>v m. if sint v > sint m then v else m) ys (m0::i32)) \<and>
   (\<forall>y \<in> set ys. sint y \<le> sint (fold (\<lambda>v m. if sint v > sint m then v else m) ys m0))"
proof (induction ys arbitrary: m0)
  case Nil
  show ?case by simp
next
  case (Cons y ys)
  let ?m = "if sint y > sint m0 then y else m0"
  have le: "sint m0 \<le> sint ?m" "sint y \<le> sint ?m" by simp_all
  from Cons.IH [of ?m] le show ?case
    by (simp; meson order_trans)
qed

lemma py_min_le_py_max: "sint (py_min xs) \<le> sint (py_max xs)"
proof -
  have "sint (py_min xs) \<le> sint (hd xs)"
    unfolding py_min_def using fold_smin [of "tl xs" "hd xs"] by simp
  also have "\<dots> \<le> sint (py_max xs)"
    unfolding py_max_def using fold_smax [of "hd xs" "tl xs"] by simp
  finally show ?thesis .
qed

lemma extent_nonzero:
  assumes "py_max xs - py_min xs \<noteq> 0"
  shows "sint (py_min xs) < sint (py_max xs)"
proof -
  from assms have "py_max xs \<noteq> py_min xs" by simp
  then have "sint (py_max xs) \<noteq> sint (py_min xs)" by (auto dest: signed_word_eqI)
  with py_min_le_py_max [of xs] show ?thesis by simp
qed

lemma fless_positive:
  assumes "\<not> fless mbs (Finite 0 0)" and "fless mbs (Finite p 0)"
  shows "0 < p"
  using assms by (cases mbs) (simp_all add: valof_def)

lemma box_nondegenerate:
  assumes "\<not> fless mbs (Finite 0 0)" "fless mbs (Finite (box_product c) 0)"
  shows "x_min (box_of c) < x_max (box_of c) \<and> y_min (box_of c) < y_max (box_of c)"
proof -
  let ?dy = "py_max (map snd c) - py_min (map snd c)"
  let ?dx = "py_max (map fst c) - py_min (map fst c)"
  from assms have "0 < box_product c" by (rule fless_positive)
  then have "box_product c \<noteq> 0" by simp
  then have "?dy * ?dx \<noteq> 0"
    by (auto simp: box_product_def Let_def)
  then have "?dy \<noteq> 0" "?dx \<noteq> 0" by auto
  then show ?thesis
    by (simp add: box_of_def Let_def extent_nonzero)
qed

lemma make_boxes_filter:
  "\<forall>c \<in> set contours. c \<noteq> [] \<Longrightarrow>
   make_boxes mbs contours detections =
     Inr (detections @ map box_of (filter (\<lambda>c. fless mbs (Finite (box_product c) 0)) contours))"
  by (induction contours arbitrary: detections) simp_all

lemma make_boxes_sound:
  "make_boxes mbs contours detections = Inr dets \<Longrightarrow> d \<in> set dets \<Longrightarrow>
   d \<in> set detections \<or> (\<exists>c \<in> set contours. fless mbs (Finite (box_product c) 0) \<and> d = box_of c)"
proof (induction contours arbitrary: detections)
  case Nil
  then show ?case by simp
next
  case (Cons c contours)
  show ?case
  proof (cases "c = []")
    case True
    with Cons.prems show ?thesis by simp
  next
    case nonempty: False
    show ?thesis
    proof (cases "fless mbs (Finite (box_product c) 0)")
      case True
      with nonempty Cons.prems have "make_boxes mbs contours (detections @ [box_of c]) = Inr dets"
        by simp
      from Cons.IH [OF this Cons.prems(2)] True show ?thesis by auto
    next
      case False
      with nonempty Cons.prems have "make_boxes mbs contours detections = Inr dets"
        by simp
      from Cons.IH [OF this Cons.prems(2)] show ?thesis by auto
    qed
  qed
qed

lemma sint_diff_exact:
  fixes a b :: i32
  assumes "0 \<le> sint b" "sint b \<le> sint a"
  shows "sint (a - b) = sint a - sint b"
proof -
  have "sint a < 2 ^ 31" using sint_lt [of a] by simp
  with assms have "- (2 ^ 31) \<le> sint a - sint b" "sint a - sint b < 2 ^ 31" by simp_all
  then have "signed_take_bit 31 (sint a - sint b) = sint a - sint b"
    by (rule signed_take_bit_int_eq_self)
  then show ?thesis by (simp add: sint_word_diff)
qed

lemma sint_mult_exact:
  fixes a b :: i32
  assumes "0 \<le> sint a * sint b" "sint a * sint b < 2 ^ 31"
  shows "sint (a * b) = sint a * sint b"
proof -
  from assms have "- (2 ^ 31) \<le> sint a * sint b" "sint a * sint b < 2 ^ 31" by simp_all
  then have "signed_take_bit 31 (sint a * sint b) = sint a * sint b"
    by (rule signed_take_bit_int_eq_self)
  then show ?thesis by (simp add: sint_word_mult)
qed

text \<open>
  X3. Without wrap-around the product is the one of the box's integer coordinates:
  this is so when the coordinates are not negative (as pixel coordinates are) and the
  product of the box's height and width is below \<open>2\<^sup>3\<^sup>1\<close>.
\<close>

theorem box_product_exact:
  assumes "0 \<le> x_min (box_of c)" and "0 \<le> y_min (box_of c)"
    and "(y_max (box_of c) - y_min (box_of c)) * (x_max (box_of c) - x_min (box_of c)) < 2 ^ 31"
  shows "box_product c =
           (y_max (box_of c) - y_min (box_of c)) * (x_max (box_of c) - x_min (box_of c))"
proof -
  let ?xs = "map fst c" and ?ys = "map snd c"
  have fields: "x_min (box_of c) = sint (py_min ?xs)" "x_max (box_of c) = sint (py_max ?xs)"
    "y_min (box_of c) = sint (py_min ?ys)" "y_max (box_of c) = sint (py_max ?ys)"
    by (simp_all add: box_of_def Let_def)
  have dx: "sint (py_max ?xs - py_min ?xs) = sint (py_max ?xs) - sint (py_min ?xs)"
    using assms(1) py_min_le_py_max [of ?xs] unfolding fields by (rule sint_diff_exact)
  have dy: "sint (py_max ?ys - py_min ?ys) = sint (py_max ?ys) - sint (py_min ?ys)"
    using assms(2) py_min_le_py_max [of ?ys] unfolding fields by (rule sint_diff_exact)
  have nonneg: "0 \<le> sint (py_max ?ys - py_min ?ys) * sint (py_max ?xs - py_min ?xs)"
    unfolding dx dy using py_min_le_py_max [of ?xs] py_min_le_py_max [of ?ys] by simp
  have small: "sint (py_max ?ys - py_min ?ys) * sint (py_max ?xs - py_min ?xs) < 2 ^ 31"
    unfolding dx dy using assms(3) unfolding fields .
  have "box_product c = sint (py_max ?ys - py_min ?ys) * sint (py_max ?xs - py_min ?xs)"
    unfolding box_product_def Let_def using nonneg small by (rule sint_mult_exact)
  then show ?thesis
    unfolding dx dy fields .
qed

theorem box_product_exact_witness:
  "box_product [(0, 0), (10, 0), (10, 10), (0, 10)] = 100 \<and>
   box_of [(0, 0), (10, 0), (10, 10), (0, 10)] =
     \<lparr>class_name = ''motion'', confidence = 1 / 2, x_min = 0, y_min = 0, x_max = 10, y_max = 10\<rparr>"
proof -
  let ?c = "[(0, 0), (10, 0), (10, 10), (0, 10)] :: contour"
  have box: "box_of ?c =
      \<lparr>class_name = ''motion'', confidence = 1 / 2, x_min = 0, y_min = 0, x_max = 10, y_max = 10\<rparr>"
    by (simp add: box_of_def py_min_def py_max_def)
  have "0 \<le> x_min (box_of ?c)" "0 \<le> y_min (box_of ?c)"
    "(y_max (box_of ?c) - y_min (box_of ?c)) * (x_max (box_of ?c) - x_min (box_of ?c)) < 2 ^ 31"
    unfolding box by simp_all
  from box_product_exact [OF this] box show ?thesis by simp
qed

section \<open>Claims\<close>

subsection \<open>Thresholding and confidence\<close>

text \<open>
  What the two masked assignments do to one pixel when the threshold is not negative:
  a pixel below \<open>k\<close> becomes 0, a pixel above \<open>k\<close> becomes \<open>v\<close>, and a pixel equal
  to \<open>k\<close> is left as it is.
\<close>

lemma threshold_pixels:
  "0 \<le> k \<Longrightarrow>
   pixels (threshold k v diff) =
     map (\<lambda>p. if uint p < k then 0 else if uint p > k then v else p) (pixels diff)"
  by (simp add: threshold_def assign_where_def)

lemmas run_eval = cvtColor_def absdiff_def absdiff_u8_def threshold_def assign_where_def
  threshold_k_def np_sum_def float_eval

text \<open>
  C1. The claim: the thresholded difference of \<^verbatim>\<open>get_classifications\<close> is a binary
  mask, 1 where the difference is at least \<open>k\<close> and 0 elsewhere. The code leaves a
  difference equal to \<open>k\<close> unchanged: for the frames \<open>[[0]]\<close> and \<open>[[25]]\<close> at
  sensitivity 0.9 the threshold is 25, the difference is 25, and the pixel of the
  mask is 25, neither 0 nor 1.
\<close>

theorem threshold_keeps_pixel_equal_to_k:
  "threshold_k (py_float 9 10) = Inr 25 \<and>
   absdiff \<lparr>height = 1, width = 1, pixels = [25]\<rparr> \<lparr>height = 1, width = 1, pixels = [0]\<rparr>
     = Inr \<lparr>height = 1, width = 1, pixels = [25]\<rparr> \<and>
   threshold 25 1 \<lparr>height = 1, width = 1, pixels = [25]\<rparr>
     = \<lparr>height = 1, width = 1, pixels = [25]\<rparr>"
  by (simp add: run_eval)

text \<open>
  C2. The claim: the confidence lies in \<open>[0, 1]\<close>. On the same frames at sensitivity
  0.9 the pixel left at 25 is summed as it is, and the confidence is 25.
\<close>

theorem confidence_above_one:
  "get_classifications
     \<lparr>cam_name = ''cam'', camera = (), sensitivity = py_float 9 10, min_box_size = Finite 0 0\<rparr>
     () 1
     \<lparr>height = 1, width = 1, pixels = [0]\<rparr> \<lparr>height = 1, width = 1, pixels = [25]\<rparr>
   = Inr [\<lparr>class_name = ''motion'', confidence = 25\<rparr>]"
  by (simp add: get_classifications_def run_eval)

text \<open>
  C3. The claim: the confidence does not decrease when the sensitivity increases. On
  the same frames the confidence is 25 at sensitivity 0.9 (threshold 25) and 1 at
  sensitivity 0.95 (threshold 12).
\<close>

theorem confidence_drops_as_sensitivity_rises:
  "fless (py_float 9 10) (py_float 19 20) \<and>
   get_classifications
     \<lparr>cam_name = ''cam'', camera = (), sensitivity = py_float 9 10, min_box_size = Finite 0 0\<rparr>
     () 1
     \<lparr>height = 1, width = 1, pixels = [0]\<rparr> \<lparr>height = 1, width = 1, pixels = [25]\<rparr>
   = Inr [\<lparr>class_name = ''motion'', confidence = 25\<rparr>] \<and>
   get_classifications
     \<lparr>cam_name = ''cam'', camera = (), sensitivity = py_float 19 20, min_box_size = Finite 0 0\<rparr>
     () 1
     \<lparr>height = 1, width = 1, pixels = [0]\<rparr> \<lparr>height = 1, width = 1, pixels = [25]\<rparr>
   = Inr [\<lparr>class_name = ''motion'', confidence = 1\<rparr>]"
  by (simp add: get_classifications_def run_eval)

subsection \<open>The confidence away from the threshold\<close>

lemma sum_threshold_pixels:
  assumes "0 \<le> k"
  shows "sum_list (map uint (map (\<lambda>p::u8. if uint p < k then 0 else if uint p > k then 1 else p) ps)) =
     int (length (filter (\<lambda>p. uint p > k) ps)) + k * int (length (filter (\<lambda>p. uint p = k) ps))"
  by (induction ps) (auto simp: algebra_simps)

lemma np_sum_threshold:
  assumes "0 \<le> k"
  shows "np_sum (threshold k 1 diff) =
     int (length (filter (\<lambda>p. uint p > k) (pixels diff))) +
     k * int (length (filter (\<lambda>p. uint p = k) (pixels diff)))"
  unfolding np_sum_def threshold_pixels [OF assms] using assms by (rule sum_threshold_pixels)

text \<open>
  The value \<^verbatim>\<open>get_classifications\<close> returns for two non-empty frames of the same
  shape when the threshold is computed and is not negative: the pixels whose difference
  is above \<open>k\<close> count 1 each and the pixels whose difference is \<open>k\<close> count \<open>k\<close> each.
\<close>

lemma classification_value:
  assumes "0 < height img1" and "0 < width img1"
    and "height img2 = height img1" and "width img2 = width img1"
    and "threshold_k (sensitivity self) = Inr k" and "0 \<le> k"
  shows "get_classifications self img count img1 img2 =
     (let d = map2 absdiff_u8 (pixels img2) (pixels img1)
      in Inr [\<lparr>class_name = ''motion'',
               confidence =
                 quotient_value
                   (int (length (filter (\<lambda>p. uint p > k) d)) +
                    k * int (length (filter (\<lambda>p. uint p = k) d)))
                   (int (width img1 * height img1))\<rparr>])"
proof -
  have gray: "cvtColor img1 = Inr img1" "cvtColor img2 = Inr img2"
    using assms(1-4) by (simp_all add: cvtColor_def)
  have diff: "absdiff img2 img1 =
      Inr \<lparr>height = height img2, width = width img2,
            pixels = map2 absdiff_u8 (pixels img2) (pixels img1)\<rparr>"
    using assms(3,4) by (simp add: absdiff_def)
  show ?thesis
    by (simp add: get_classifications_def gray diff assms(5) np_sum_threshold [OF assms(6)] Let_def)
qed

text \<open>
  X1. The confidence is the float quotient of the number of pixels whose difference is
  above \<open>k\<close>, plus \<open>k\<close> times the number of pixels whose difference is \<open>k\<close>, by the
  number of pixels.
\<close>

theorem confidence_formula:
  assumes "0 < height img1" and "0 < width img1"
    and "height img2 = height img1" and "width img2 = width img1"
    and "threshold_k (sensitivity self) = Inr k" and "0 \<le> k"
  shows "get_classifications self img count img1 img2 =
     (let d = map2 absdiff_u8 (pixels img2) (pixels img1)
      in Inr [\<lparr>class_name = ''motion'',
               confidence =
                 quotient_value
                   (int (length (filter (\<lambda>p. uint p > k) d)) +
                    k * int (length (filter (\<lambda>p. uint p = k) d)))
                   (int (width img1 * height img1))\<rparr>])"
  using assms by (rule classification_value)

theorem confidence_formula_witness:
  "threshold_k (py_float 9 10) = Inr 25 \<and>
   get_classifications
     \<lparr>cam_name = ''cam'', camera = (), sensitivity = py_float 9 10, min_box_size = Finite 0 0\<rparr>
     () 1
     \<lparr>height = 1, width = 3, pixels = [0, 10, 100]\<rparr>
     \<lparr>height = 1, width = 3, pixels = [25, 20, 40]\<rparr>
   = Inr [\<lparr>class_name = ''motion'', confidence = quotient_value 26 3\<rparr>] \<and>
   quotient_value 26 3 = 4878899596318037 / 2 ^ 49"
proof -
  let ?self = "\<lparr>cam_name = ''cam'', camera = (), sensitivity = py_float 9 10,
    min_box_size = Finite 0 0\<rparr>"
  have k: "threshold_k (sensitivity ?self) = Inr 25"
    by (simp add: run_eval)
  from confidence_formula
    [of "\<lparr>height = 1, width = 3, pixels = [0, 10, 100]\<rparr>"
        "\<lparr>height = 1, width = 3, pixels = [25, 20, 40]\<rparr>" ?self 25 "()" 1, OF _ _ _ _ k]
  have "get_classifications ?self () 1
     \<lparr>height = 1, width = 3, pixels = [0, 10, 100]\<rparr>
     \<lparr>height = 1, width = 3, pixels = [25, 20, 40]\<rparr>
   = Inr [\<lparr>class_name = ''motion'', confidence = quotient_value 26 3\<rparr>]"
    by (simp add: absdiff_u8_def)
  moreover have "quotient_value 26 3 = 4878899596318037 / 2 ^ 49"
    by (simp add: float_eval)
  ultimately show ?thesis using k by simp
qed

text \<open>The float quotient of \<open>p\<close> by \<open>q\<close> lies in \<open>[0, 1]\<close> when \<open>0 \<le> p \<le> q\<close>.\<close>

lemma bitlen_mono:
  assumes "0 < p" and "p \<le> q"
  shows "bitlen p \<le> bitlen q"
proof -
  from assms have q: "0 < q" by simp
  have "p < 2 ^ nat (bitlen q)"
    using bitlen_bounds [OF q] assms(2) by simp
  then show ?thesis
    by (simp add: bitlen_le_iff_power bitlen_nonneg)
qed

lemma quotient_value_unit:
  assumes "0 \<le> p" and "p \<le> q" and "0 < q"
  shows "0 \<le> quotient_value p q \<and> quotient_value p q \<le> 1"
proof (cases "p = 0")
  case True
  then show ?thesis
    by (simp add: quotient_value_def true_divide_def valof_def)
next
  case False
  with assms(1) have p: "0 < p" by simp
  define K where "K = nat (55 - (bitlen p - bitlen q))"
  define Q where "Q = (p * 2 ^ K) div q"
  define M where "M = 2 * Q + (if (p * 2 ^ K) mod q = 0 then 0 else 1)"
  have k: "0 \<le> 55 - (bitlen p - bitlen q)"
    using bitlen_mono [OF p assms(2)] by simp
  have td: "true_divide p q = round53 M (- (55 - (bitlen p - bitlen q)) - 1)"
    using False k by (simp add: true_divide_def Let_def M_def Q_def K_def)
  have e: "- (55 - (bitlen p - bitlen q)) - 1 = - int (Suc K)"
    using k by (simp add: K_def)
  have Q0: "0 \<le> Q"
    unfolding Q_def using p assms(3) by (simp add: pos_imp_zdiv_nonneg_iff)
  have QK: "Q \<le> 2 ^ K"
  proof -
    have "p * 2 ^ K \<le> q * 2 ^ K"
      using assms(2) by (intro mult_right_mono) simp_all
    then have "(p * 2 ^ K) div q \<le> (q * 2 ^ K) div q"
      using assms(3) by (intro zdiv_mono1)
    then show ?thesis
      using assms(3) by (simp add: Q_def)
  qed
  have MK: "M \<le> 2 ^ Suc K"
  proof (cases "Q = 2 ^ K")
    case True
    have "p * 2 ^ K = Q * q + (p * 2 ^ K) mod q"
      unfolding Q_def by (simp only: div_mult_mod_eq)
    moreover have "0 \<le> (p * 2 ^ K) mod q"
      using assms(3) by simp
    ultimately have "Q * q \<le> p * 2 ^ K" by linarith
    then have "q * 2 ^ K \<le> p * 2 ^ K"
      unfolding True by (simp add: mult.commute)
    then have "q \<le> p" by simp
    with assms(2) have "p = q" by simp
    then have "(p * 2 ^ K) mod q = 0" by simp
    then show ?thesis
      unfolding M_def True by simp
  next
    case False
    with QK have "Q + 1 \<le> 2 ^ K" by simp
    then have "2 * Q + 1 < 2 * 2 ^ K" by simp
    then show ?thesis
      unfolding M_def by simp
  qed
  have M0: "0 \<le> M"
    unfolding M_def using Q0 by simp
  have "nat (- (- int (Suc K))) = Suc K" by simp
  then have "valof M (- int (Suc K)) = real_of_int M / 2 ^ Suc K"
    unfolding valof_def by (simp only: if_False not_le [symmetric] neg_less_0_iff_less of_nat_0_less_iff zero_less_Suc not_less) simp
  also have "\<dots> \<le> real_of_int (2 ^ Suc K) / 2 ^ Suc K"
    using MK by (intro divide_right_mono) (simp_all only: of_int_le_iff zero_le_power zero_le_numeral)
  also have "\<dots> = 2 ^ 0" by simp
  finally have v: "valof M (- int (Suc K)) \<le> 2 ^ 0" .
  obtain m e' where r: "round53 M (- int (Suc K)) = (m, e')"
    by (cases "round53 M (- int (Suc K))")
  from round53_bound [OF M0 v r] have "0 \<le> m" "valof m e' \<le> 1" by simp_all
  moreover have "quotient_value p q = valof m e'"
    by (simp only: quotient_value_def td e r prod.case)
  ultimately show ?thesis
    by (simp add: valof_nonneg)
qed

text \<open>
  X2. When the threshold is not negative and no pixel's difference is equal to it, the
  confidence lies in \<open>[0, 1]\<close>.
\<close>

theorem confidence_in_unit_interval_off_threshold:
  assumes "wf_frame img1" and "wf_frame img2"
    and "threshold_k (sensitivity self) = Inr k" and "0 \<le> k"
    and "get_classifications self img count img1 img2 = Inr cs"
    and "\<forall>p \<in> set (map2 absdiff_u8 (pixels img2) (pixels img1)). uint p \<noteq> k"
  shows "\<exists>conf. cs = [\<lparr>class_name = ''motion'', confidence = conf\<rparr>] \<and> 0 \<le> conf \<and> conf \<le> 1"
proof -
  let ?d = "map2 absdiff_u8 (pixels img2) (pixels img1)"
  let ?n = "length (filter (\<lambda>p. uint p > k) ?d)"
  from assms(5) have dims: "0 < height img1" "0 < width img1"
    "height img2 = height img1" "width img2 = width img1"
    by (auto simp: get_classifications_def cvtColor_def absdiff_def split: if_splits)
  have none: "filter (\<lambda>p. uint p = k) ?d = []"
    using assms(6) by (simp add: filter_empty_conv)
  let ?conf = "quotient_value (int ?n) (int (width img1 * height img1))"
  have "get_classifications self img count img1 img2 =
      Inr [\<lparr>class_name = ''motion'',
             confidence = quotient_value
               (int ?n + k * int (length (filter (\<lambda>p. uint p = k) ?d)))
               (int (width img1 * height img1))\<rparr>]"
    using classification_value [OF dims assms(3,4), of img count] unfolding Let_def .
  also have "\<dots> = Inr [\<lparr>class_name = ''motion'', confidence = ?conf\<rparr>]"
    unfolding none by simp
  finally have cs: "cs = [\<lparr>class_name = ''motion'', confidence = ?conf\<rparr>]"
    using assms(5) by simp
  have "length ?d = width img1 * height img1"
    using assms(1,2) dims by (simp add: wf_frame_def mult.commute)
  moreover have "?n \<le> length ?d"
    by (rule length_filter_le)
  ultimately have le: "int ?n \<le> int (width img1 * height img1)"
    by (simp only: of_nat_le_iff)
  have pos: "0 < int (width img1 * height img1)"
    using dims by simp
  have "0 \<le> int ?n" by simp
  from quotient_value_unit [OF this le pos] cs show ?thesis by blast
qed

theorem confidence_in_unit_interval_off_threshold_witness:
  "get_classifications
     \<lparr>cam_name = ''cam'', camera = (), sensitivity = py_float 9 10, min_box_size = Finite 0 0\<rparr>
     () 1
     \<lparr>height = 1, width = 3, pixels = [0, 10, 100]\<rparr>
     \<lparr>height = 1, width = 3, pixels = [26, 20, 40]\<rparr>
   = Inr [\<lparr>class_name = ''motion'', confidence = quotient_value 2 3\<rparr>] \<and>
   (\<exists>conf. [\<lparr>class_name = ''motion'', confidence = quotient_value 2 3\<rparr>]
        = [\<lparr>class_name = ''motion'', confidence = conf\<rparr>] \<and> 0 \<le> conf \<and> conf \<le> 1)"
proof -
  let ?self = "\<lparr>cam_name = ''cam'', camera = (), sensitivity = py_float 9 10,
    min_box_size = Finite 0 0\<rparr>"
  let ?f1 = "\<lparr>height = 1, width = 3, pixels = [0, 10, 100]\<rparr>"
  let ?f2 = "\<lparr>height = 1, width = 3, pixels = [26, 20, 40]\<rparr>"
  have wf: "wf_frame ?f1" "wf_frame ?f2" by (simp_all add: wf_frame_def)
  have k: "threshold_k (sensitivity ?self) = Inr 25" "(0::int) \<le> 25"
    by (simp_all add: run_eval)
  have run: "get_classifications ?self () 1 ?f1 ?f2
      = Inr [\<lparr>class_name = ''motion'', confidence = quotient_value 2 3\<rparr>]"
    by (simp add: get_classifications_def run_eval)
  have off: "\<forall>p \<in> set (map2 absdiff_u8 (pixels ?f2) (pixels ?f1)). uint p \<noteq> 25"
    by (simp add: absdiff_u8_def)
  from confidence_in_unit_interval_off_threshold [OF wf k run off] run show ?thesis
    by blast
qed

subsection \<open>Identical frames and mismatched frames\<close>

text \<open>
  C4. A frame compared against itself: \<^verbatim>\<open>get_classifications\<close> returns the confidence
  0 and \<^verbatim>\<open>get_detections\<close> returns no detection, for every finite sensitivity of at
  most 1 that is not below \<open>-2\<^sup>1\<^sup>0\<^sup>0\<^sup>0\<close> (so for every sensitivity in \<open>[0, 1]\<close>) and
  every minimum box size. The frame is a non-empty array, and the contour finder reports
  no contour on the array of zeros.
\<close>

theorem identical_frames_no_motion:
  assumes "wf_frame f" and "0 < height f" and "0 < width f"
    and "sensitivity self = Finite m e" and "- (2 ^ 1000) \<le> valof m e" and "valof m e \<le> 1"
    and "findContours (zeros (height f) (width f)) = []"
  shows "get_classifications self img count f f = Inr [\<lparr>class_name = ''motion'', confidence = 0\<rparr>] \<and>
         get_detections findContours self img' f f = Inr []"
proof -
  have gray: "cvtColor f = Inr f"
    using assms(2,3) by (simp add: cvtColor_def)
  have diff: "absdiff f f = Inr (zeros (height f) (width f))"
    using assms(1) by (rule absdiff_self)
  from threshold_k_nonneg [OF assms(5,6)] obtain k
    where k: "threshold_k (sensitivity self) = Inr k" and k0: "0 \<le> k"
    unfolding assms(4) by blast
  have sum0: "np_sum (zeros (height f) (width f)) = 0"
    by (simp add: np_sum_def zeros_def sum_list_replicate)
  have q0: "quotient_value 0 n = 0" for n
    by (simp add: quotient_value_def true_divide_def valof_def)
  have "get_classifications self img count f f = Inr [\<lparr>class_name = ''motion'', confidence = 0\<rparr>]"
    by (simp add: get_classifications_def gray diff k threshold_zeros [OF k0] sum0 q0)
  moreover have "get_detections findContours self img' f f = Inr []"
    by (simp add: get_detections_def gray diff k threshold_zeros [OF k0] denoise_zeros assms(7))
  ultimately show ?thesis ..
qed

theorem identical_frames_no_motion_witness:
  "wf_frame \<lparr>height = 2, width = 2, pixels = [7, 7, 9, 200]\<rparr> \<and>
   py_float 9 10 = Finite 8106479329266893 (- 53) \<and>
   - (2 ^ 1000) \<le> valof 8106479329266893 (- 53) \<and> valof 8106479329266893 (- 53) \<le> 1 \<and>
   (\<lambda>m. if pixels m = replicate (height m * width m) 0 then [] else [[(0, 0)]]) (zeros 2 2) = [] \<and>
   get_classifications
     \<lparr>cam_name = ''cam'', camera = (), sensitivity = py_float 9 10, min_box_size = Finite 0 0\<rparr>
     () 1
     \<lparr>height = 2, width = 2, pixels = [7, 7, 9, 200]\<rparr>
     \<lparr>height = 2, width = 2, pixels = [7, 7, 9, 200]\<rparr>
   = Inr [\<lparr>class_name = ''motion'', confidence = 0\<rparr>] \<and>
   get_detections (\<lambda>m. if pixels m = replicate (height m * width m) 0 then [] else [[(0, 0)]])
     \<lparr>cam_name = ''cam'', camera = (), sensitivity = py_float 9 10, min_box_size = Finite 0 0\<rparr>
     ()
     \<lparr>height = 2, width = 2, pixels = [7, 7, 9, 200]\<rparr>
     \<lparr>height = 2, width = 2, pixels = [7, 7, 9, 200]\<rparr>
   = Inr []"
proof -
  let ?f = "\<lparr>height = 2, width = 2, pixels = [7, 7, 9, 200]\<rparr>"
  let ?self = "\<lparr>cam_name = ''cam'', camera = (), sensitivity = py_float 9 10,
    min_box_size = Finite 0 0\<rparr>"
  let ?fc = "\<lambda>m. if pixels m = replicate (height m * width m) 0 then [] else [[(0, 0)]] :: contour list"
  have lit: "py_float 9 10 = Finite 8106479329266893 (- 53)"
    by (simp add: float_eval)
  have s: "sensitivity ?self = Finite 8106479329266893 (- 53)"
    using lit by simp
  have v: "- (2 ^ 1000) \<le> valof 8106479329266893 (- 53)" "valof 8106479329266893 (- 53) \<le> 1"
    by (simp_all add: valof_def)
  have wf: "wf_frame ?f" "0 < height ?f" "0 < width ?f"
    by (simp_all add: wf_frame_def)
  have fc: "?fc (zeros (height ?f) (width ?f)) = []"
    by (simp add: zeros_def)
  from identical_frames_no_motion
    [of ?f ?self 8106479329266893 "- 53" ?fc "()" 1 "()", OF wf s v fc] lit v wf(1)
  show ?thesis by (simp add: zeros_def)
qed

text \<open>
  C5. Frames that differ in width or height: both operations fail with the error of the
  OpenCV call (\<^verbatim>\<open>cv2.error\<close>, the dimension mismatch) and return no result.
\<close>

theorem dimension_mismatch_fails:
  assumes "height img1 \<noteq> height img2 \<or> width img1 \<noteq> width img2"
  shows "get_classifications self img count img1 img2 = Inl Cv2Error \<and>
         get_detections findContours self img' img1 img2 = Inl Cv2Error"
  using assms
  by (auto simp: get_classifications_def get_detections_def cvtColor_def absdiff_def)

theorem dimension_mismatch_fails_witness:
  "(height \<lparr>height = 10, width = 10, pixels = replicate 100 0\<rparr>
      \<noteq> height \<lparr>height = 20, width = 10, pixels = replicate 200 0\<rparr>) \<and>
   get_classifications
     \<lparr>cam_name = ''cam'', camera = (), sensitivity = py_float 9 10, min_box_size = Finite 0 0\<rparr>
     () 1
     \<lparr>height = 10, width = 10, pixels = replicate 100 0\<rparr>
     \<lparr>height = 20, width = 10, pixels = replicate 200 0\<rparr> = Inl Cv2Error \<and>
   get_detections (\<lambda>m. [])
     \<lparr>cam_name = ''cam'', camera = (), sensitivity = py_float 9 10, min_box_size = Finite 0 0\<rparr>
     ()
     \<lparr>height = 10, width = 10, pixels = replicate 100 0\<rparr>
     \<lparr>height = 20, width = 10, pixels = replicate 200 0\<rparr> = Inl Cv2Error"
  using dimension_mismatch_fails
    [of "\<lparr>height = 10, width = 10, pixels = replicate 100 0\<rparr>"
        "\<lparr>height = 20, width = 10, pixels = replicate 200 0\<rparr>"
        "\<lparr>cam_name = ''cam'', camera = (), sensitivity = py_float 9 10, min_box_size = Finite 0 0\<rparr>"
        "()" 1 "\<lambda>m. []" "()"]
  by simp

subsection \<open>The area filter\<close>

text \<open>
  Once both frames are converted, their difference is taken and the threshold is
  computed, \<^verbatim>\<open>get_detections\<close> is the loop over the contours of the denoised mask.
\<close>

lemma get_detections_contours:
  assumes "cvtColor input1 = Inr gray1" and "cvtColor input2 = Inr gray2"
    and "absdiff gray2 gray1 = Inr diff" and "threshold_k (sensitivity self) = Inr k"
  shows "get_detections findContours self img input1 input2 =
           make_boxes (min_box_size self) (findContours (denoise (threshold k 255 diff))) []"
  using assms by (simp add: get_detections_def)

lemma get_detections_success:
  assumes "get_detections findContours self img input1 input2 = Inr dets"
  obtains contours where "make_boxes (min_box_size self) contours [] = Inr dets"
  using assms
  by (auto simp: get_detections_def split: sum.splits)

text \<open>
  C6. The area filter is strict: of the contours found, the detections returned are
  the boxes of exactly those whose product \<^verbatim>\<open>(ymax-ymin)*(xmax-xmin)\<close> is greater than
  \<^verbatim>\<open>min_box_size\<close>, in the order of the contours; a contour whose product equals
  \<^verbatim>\<open>min_box_size\<close> gives no detection. The product is the \<^verbatim>\<open>int32\<close> value the code
  computes; without wrap-around it is the product of the box's height and width. Each
  contour has at least one point, as those of OpenCV have.
\<close>

theorem area_filter_strict:
  assumes "cvtColor input1 = Inr gray1" and "cvtColor input2 = Inr gray2"
    and "absdiff gray2 gray1 = Inr diff" and "threshold_k (sensitivity self) = Inr k"
    and "contours = findContours (denoise (threshold k 255 diff))"
    and "\<forall>c \<in> set contours. c \<noteq> []"
  shows "get_detections findContours self img input1 input2 =
           Inr (map box_of
             (filter (\<lambda>c. fless (min_box_size self) (Finite (box_product c) 0)) contours))"
proof -
  have "get_detections findContours self img input1 input2 =
          make_boxes (min_box_size self) contours []"
    unfolding assms(5) using assms(1-4) by (rule get_detections_contours)
  also have "\<dots> = Inr ([] @ map box_of
      (filter (\<lambda>c. fless (min_box_size self) (Finite (box_product c) 0)) contours))"
    using assms(6) by (rule make_boxes_filter)
  finally show ?thesis by simp
qed

theorem area_filter_strict_witness:
  "get_detections (\<lambda>m. [[(0, 0), (10, 0), (10, 10), (0, 10)]])
     \<lparr>cam_name = ''cam'', camera = (), sensitivity = py_float 9 10, min_box_size = Finite 100 0\<rparr>
     ()
     \<lparr>height = 1, width = 1, pixels = [0]\<rparr> \<lparr>height = 1, width = 1, pixels = [90]\<rparr>
   = Inr [] \<and>
   get_detections (\<lambda>m. [[(0, 0), (10, 0), (10, 10), (0, 10)]])
     \<lparr>cam_name = ''cam'', camera = (), sensitivity = py_float 9 10, min_box_size = Finite 99 0\<rparr>
     ()
     \<lparr>height = 1, width = 1, pixels = [0]\<rparr> \<lparr>height = 1, width = 1, pixels = [90]\<rparr>
   = Inr [\<lparr>class_name = ''motion'', confidence = 1 / 2,
           x_min = 0, y_min = 0, x_max = 10, y_max = 10\<rparr>]"
proof -
  let ?fc = "\<lambda>m::frame. [[(0, 0), (10, 0), (10, 10), (0, 10)]] :: contour list"
  let ?f1 = "\<lparr>height = 1, width = 1, pixels = [0]\<rparr>"
  let ?f2 = "\<lparr>height = 1, width = 1, pixels = [90]\<rparr>"
  let ?a = "\<lparr>cam_name = ''cam'', camera = (), sensitivity = py_float 9 10,
    min_box_size = Finite 100 0\<rparr>"
  let ?b = "\<lparr>cam_name = ''cam'', camera = (), sensitivity = py_float 9 10,
    min_box_size = Finite 99 0\<rparr>"
  have gray: "cvtColor ?f1 = Inr ?f1" "cvtColor ?f2 = Inr ?f2"
    by (simp_all add: cvtColor_def)
  have diff: "absdiff ?f2 ?f1 = Inr ?f2"
    by (simp add: absdiff_def absdiff_u8_def)
  have k: "threshold_k (sensitivity ?a) = Inr 25" "threshold_k (sensitivity ?b) = Inr 25"
    by (simp_all add: run_eval)
  have product: "box_product [(0, 0), (10, 0), (10, 10), (0, 10)] = 100"
    by (simp add: box_product_def py_min_def py_max_def)
  have box: "box_of [(0, 0), (10, 0), (10, 10), (0, 10)] =
      \<lparr>class_name = ''motion'', confidence = 1 / 2, x_min = 0, y_min = 0, x_max = 10, y_max = 10\<rparr>"
    by (simp add: box_of_def py_min_def py_max_def)
  show ?thesis
    using area_filter_strict [OF gray diff k(1), of "?fc _" ?fc "()"]
      area_filter_strict [OF gray diff k(2), of "?fc _" ?fc "()"]
    by (simp add: product box valof_def)
qed

text \<open>
  C10. No degenerate box: when \<^verbatim>\<open>min_box_size\<close> is not negative, every detection
  returned has \<open>x_min < x_max\<close> and \<open>y_min < y_max\<close>; a contour whose box has no
  width or no height has product 0 and is dropped, also at \<^verbatim>\<open>min_box_size\<close> 0.
\<close>

theorem no_degenerate_box:
  assumes "\<not> fless (min_box_size self) (Finite 0 0)"
    and "get_detections findContours self img input1 input2 = Inr dets"
    and "d \<in> set dets"
  shows "x_min d < x_max d \<and> y_min d < y_max d"
proof -
  from assms(2) obtain contours
    where "make_boxes (min_box_size self) contours [] = Inr dets"
    by (rule get_detections_success)
  from make_boxes_sound [OF this assms(3)] obtain c
    where "fless (min_box_size self) (Finite (box_product c) 0)" and "d = box_of c"
    by auto
  with assms(1) show ?thesis
    by (simp add: box_nondegenerate)
qed

theorem no_degenerate_box_witness:
  "get_detections (\<lambda>m. [[(3, 5), (9, 5)], [(0, 0), (10, 0), (10, 10), (0, 10)]])
     \<lparr>cam_name = ''cam'', camera = (), sensitivity = py_float 9 10, min_box_size = Finite 0 0\<rparr>
     ()
     \<lparr>height = 1, width = 1, pixels = [0]\<rparr> \<lparr>height = 1, width = 1, pixels = [90]\<rparr>
   = Inr [\<lparr>class_name = ''motion'', confidence = 1 / 2,
           x_min = 0, y_min = 0, x_max = 10, y_max = 10\<rparr>] \<and>
   x_min \<lparr>class_name = ''motion'', confidence = 1 / 2,
           x_min = 0, y_min = 0, x_max = 10, y_max = 10\<rparr>
     < x_max \<lparr>class_name = ''motion'', confidence = 1 / 2,
           x_min = 0, y_min = 0, x_max = 10, y_max = 10\<rparr> \<and>
   y_min \<lparr>class_name = ''motion'', confidence = 1 / 2,
           x_min = 0, y_min = 0, x_max = 10, y_max = 10\<rparr>
     < y_max \<lparr>class_name = ''motion'', confidence = 1 / 2,
           x_min = 0, y_min = 0, x_max = 10, y_max = 10\<rparr>"
proof -
  let ?fc = "\<lambda>m::frame. [[(3, 5), (9, 5)], [(0, 0), (10, 0), (10, 10), (0, 10)]] :: contour list"
  let ?self = "\<lparr>cam_name = ''cam'', camera = (), sensitivity = py_float 9 10,
    min_box_size = Finite 0 0\<rparr>"
  let ?d = "\<lparr>class_name = ''motion'', confidence = 1 / 2,
           x_min = 0, y_min = 0, x_max = 10, y_max = 10\<rparr>"
  have run: "get_detections ?fc ?self ()
      \<lparr>height = 1, width = 1, pixels = [0]\<rparr> \<lparr>height = 1, width = 1, pixels = [90]\<rparr> = Inr [?d]"
    by (simp add: get_detections_def cvtColor_def absdiff_def threshold_k_def float_eval
        box_product_def box_of_def py_min_def py_max_def)
  have "\<not> fless (min_box_size ?self) (Finite 0 0)" by (simp add: valof_def)
  from no_degenerate_box [OF this run, of ?d] run show ?thesis by simp
qed

subsection \<open>Configuration\<close>


text \<open>
  A NaN satisfies none of the comparisons of \<^verbatim>\<open>validate_config\<close>: it is accepted
  and stored, and \<^verbatim>\<open>math.floor\<close> then raises in \<^verbatim>\<open>get_classifications\<close>.
\<close>

lemma nan_is_accepted:
  "validate_config
     [''cam_name'' \<mapsto> StringValue ''cam'', ''sensitivity'' \<mapsto> NumberValue NaN,
      ''min_box_size'' \<mapsto> NumberValue NaN]
   = Inr [''cam''] \<and>
   reconfigure
     \<lparr>cam_name = [], camera = (), sensitivity = Finite 0 0, min_box_size = Finite 0 0\<rparr>
     [''cam_name'' \<mapsto> StringValue ''cam'', ''sensitivity'' \<mapsto> NumberValue NaN,
      ''min_box_size'' \<mapsto> NumberValue NaN]
     [''cam'' \<mapsto> ()]
   = Inr \<lparr>cam_name = ''cam'', camera = (), sensitivity = NaN, min_box_size = NaN\<rparr> \<and>
   get_classifications
     \<lparr>cam_name = ''cam'', camera = (), sensitivity = NaN, min_box_size = NaN\<rparr> () 1
     \<lparr>height = 1, width = 1, pixels = [0]\<rparr> \<lparr>height = 1, width = 1, pixels = [0]\<rparr>
   = Inl ValueError"
  by (simp add: validate_config_def reconfigure_def number_value_def string_value_def
      get_classifications_def run_eval)







text \<open>
  C8. \<^verbatim>\<open>reconfigure\<close> stores 0.9 for a configured sensitivity equal to 0 and stores
  every other sensitivity unchanged.
\<close>

theorem reconfigure_replaces_zero_sensitivity:
  assumes "reconfigure self config dependencies = Inr self'"
  shows "sensitivity self' =
           (if feq (number_value (config ''sensitivity'')) (Finite 0 0) then py_float 9 10
            else number_value (config ''sensitivity''))"
  using assms
  by (auto simp: reconfigure_def Let_def split: option.splits if_splits)

theorem reconfigure_replaces_zero_sensitivity_witness:
  "reconfigure
     \<lparr>cam_name = [], camera = (), sensitivity = Finite 1 (- 1), min_box_size = Finite 0 0\<rparr>
     [''cam_name'' \<mapsto> StringValue ''cam'', ''sensitivity'' \<mapsto> NumberValue (Finite 0 0),
      ''min_box_size'' \<mapsto> NumberValue (Finite 1000 0)]
     [''cam'' \<mapsto> ()]
   = Inr \<lparr>cam_name = ''cam'', camera = (), sensitivity = py_float 9 10,
           min_box_size = Finite 1000 0\<rparr> \<and>
   sensitivity \<lparr>cam_name = ''cam'', camera = (), sensitivity = py_float 9 10,
                 min_box_size = Finite 1000 0\<rparr>
   = py_float 9 10 \<and>
   py_float 9 10 = Finite 8106479329266893 (- 53)"
proof -
  have lit: "py_float 9 10 = Finite 8106479329266893 (- 53)"
    by (simp add: float_eval)
  have stored: "reconfigure
     \<lparr>cam_name = [], camera = (), sensitivity = Finite 1 (- 1), min_box_size = Finite 0 0\<rparr>
     [''cam_name'' \<mapsto> StringValue ''cam'', ''sensitivity'' \<mapsto> NumberValue (Finite 0 0),
      ''min_box_size'' \<mapsto> NumberValue (Finite 1000 0)]
     [''cam'' \<mapsto> ()]
   = Inr \<lparr>cam_name = ''cam'', camera = (), sensitivity = py_float 9 10,
           min_box_size = Finite 1000 0\<rparr>"
    by (simp add: reconfigure_def number_value_def string_value_def)
  from reconfigure_replaces_zero_sensitivity [OF stored] stored lit
  show ?thesis by simp
qed

subsection \<open>The arguments that are not read\<close>

text \<open>
  C9. \<^verbatim>\<open>get_classifications\<close> and \<^verbatim>\<open>get_detections\<close> do not read their
  \<^verbatim>\<open>image\<close> and \<^verbatim>\<open>count\<close> arguments: for the same two captured frames, two services
  with the same sensitivity and the same minimum box size return the same
  classifications and the same detections, whatever these arguments, the camera and
  its name are.
\<close>

theorem results_ignore_image_and_count:
  assumes "sensitivity self = sensitivity other"
    and "min_box_size self = min_box_size other"
  shows "get_classifications self img count img1 img2 =
           get_classifications other img' count' img1 img2 \<and>
         get_detections findContours self img img1 img2 =
           get_detections findContours other img' img1 img2"
  by (simp only: get_classifications_def get_detections_def assms)

theorem results_ignore_image_and_count_witness:
  "sensitivity \<lparr>cam_name = ''cam'', camera = (), sensitivity = py_float 9 10,
       min_box_size = Finite 5 0\<rparr>
     = sensitivity \<lparr>cam_name = ''other'', camera = True, sensitivity = py_float 9 10,
       min_box_size = Finite 5 0\<rparr> \<and>
   get_classifications
     \<lparr>cam_name = ''cam'', camera = (), sensitivity = py_float 9 10, min_box_size = Finite 5 0\<rparr>
     () 1
     \<lparr>height = 1, width = 1, pixels = [0]\<rparr> \<lparr>height = 1, width = 1, pixels = [90]\<rparr>
   = get_classifications
     \<lparr>cam_name = ''other'', camera = True, sensitivity = py_float 9 10,
        min_box_size = Finite 5 0\<rparr>
     [(7::nat)] 3
     \<lparr>height = 1, width = 1, pixels = [0]\<rparr> \<lparr>height = 1, width = 1, pixels = [90]\<rparr> \<and>
   get_detections (\<lambda>m. [[(0, 0), (10, 0), (10, 10), (0, 10)]])
     \<lparr>cam_name = ''cam'', camera = (), sensitivity = py_float 9 10, min_box_size = Finite 5 0\<rparr>
     ()
     \<lparr>height = 1, width = 1, pixels = [0]\<rparr> \<lparr>height = 1, width = 1, pixels = [90]\<rparr>
   = get_detections (\<lambda>m. [[(0, 0), (10, 0), (10, 10), (0, 10)]])
     \<lparr>cam_name = ''other'', camera = True, sensitivity = py_float 9 10,
        min_box_size = Finite 5 0\<rparr>
     [(7::nat)]
     \<lparr>height = 1, width = 1, pixels = [0]\<rparr> \<lparr>height = 1, width = 1, pixels = [90]\<rparr>"
  using results_ignore_image_and_count
    [of "\<lparr>cam_name = ''cam'', camera = (), sensitivity = py_float 9 10,
           min_box_size = Finite 5 0\<rparr>"
        "\<lparr>cam_name = ''other'', camera = True, sensitivity = py_float 9 10,
           min_box_size = Finite 5 0\<rparr>"
        "()" 1 "\<lparr>height = 1, width = 1, pixels = [0]\<rparr>"
        "\<lparr>height = 1, width = 1, pixels = [90]\<rparr>" "[(7::nat)]" 3
        "\<lambda>m. [[(0, 0), (10, 0), (10, 10), (0, 10)]]"]
  by simp

end
